theory Spec2Isabelle
  imports Main
begin

section \<open>Big numbers and their decimal strings\<close>

text \<open>
  The quantities of \<^verbatim>\<open>accounts.ts\<close> (\<^verbatim>\<open>Wei\<close>, \<^verbatim>\<open>BlockNumber\<close>) are
  arbitrary-precision integers of the \<^verbatim>\<open>BN\<close> class: they are modelled as \<open>int\<close>.
  \<^verbatim>\<open>a.eq(b)\<close> is equality, \<^verbatim>\<open>a.sub(b)\<close> is subtraction, \<^verbatim>\<open>a.div(b)\<close> is the
  integer quotient truncated towards zero (the only divisor of this module is the
  constant \<open>10^18\<close>, so the failure of a division by zero does not arise), and
  \<^verbatim>\<open>a.toString()\<close> is the decimal numeral, with one leading minus sign for a
  negative number.
\<close>

definition bn_div :: "int \<Rightarrow> int \<Rightarrow> int" where
  "bn_div a b = sgn a * sgn b * (\<bar>a\<bar> div \<bar>b\<bar>)"

definition digit :: "nat \<Rightarrow> char" where
  "digit d = ''0123456789'' ! (d mod 10)"

fun showNat :: "nat \<Rightarrow> string" where
  "showNat n = (if n < 10 then [digit n] else showNat (n div 10) @ [digit (n mod 10)])"

declare showNat.simps [simp del]

definition bn_toString :: "int \<Rightarrow> string" where
  "bn_toString i = (if i < 0 then CHR ''-'' # showNat (nat (- i)) else showNat (nat i))"

text \<open>\<^verbatim>\<open>const weiToEthString = (w: Wei) => w.div(new BN('1000000000000000000')).toString()\<close>\<close>

definition weiToEthString :: "int \<Rightarrow> string" where
  "weiToEthString w = bn_toString (bn_div w 1000000000000000000)"

text \<open>\<^verbatim>\<open>as.Wei\<close> is the framework's cast of a big number to the \<^verbatim>\<open>Wei\<close> type.\<close>

definition asWei :: "int \<Rightarrow> int" where
  "asWei w = w"

section \<open>Balance readings\<close>

datatype dkey = Eth | Got | Hs

text \<open>
  The \<^verbatim>\<open>delta\<close> object of a formatted reading: a key may be absent (\<open>None\<close>), present
  with the value \<^verbatim>\<open>undefined\<close> (\<open>Some None\<close>) or present with a string.
\<close>

type_synonym Delta = "dkey \<rightharpoonup> string option"

record AccountBalance =
  blockNumber :: int
  wei :: int
  gotToken :: int
  hsToken :: int

record AccountBalanceFormatted = AccountBalance +
  eth :: string
  got :: string
  hs :: string
  delta :: Delta

datatype qkey = KGotToken | KHsToken | KWei

definition quantity :: "qkey \<Rightarrow> AccountBalanceFormatted \<Rightarrow> int" where
  "quantity k a = (case k of KGotToken \<Rightarrow> gotToken a | KHsToken \<Rightarrow> hsToken a | KWei \<Rightarrow> wei a)"

text \<open>
  \<^verbatim>\<open>isBalanceChanged = (a, b) => !(['gotToken', 'hsToken', 'wei']).reduce((v, k) =>
    v || !a[k].eq(b[k]), false)\<close>
\<close>

definition isBalanceChanged :: "AccountBalanceFormatted \<Rightarrow> AccountBalanceFormatted \<Rightarrow> bool" where
  "isBalanceChanged a b =
     (\<not> fold (\<lambda>k v. v \<or> \<not> (quantity k a = quantity k b)) [KGotToken, KHsToken, KWei] False)"

subsection \<open>The stream operators used by the balance pipelines\<close>

text \<open>
  \<^verbatim>\<open>filter(Boolean)\<close> on a stream of readings that may be \<^verbatim>\<open>undefined\<close>: a reading is
  an object, hence truthy; \<^verbatim>\<open>undefined\<close> is dropped.
\<close>

definition filterBoolean :: "'a option list \<Rightarrow> 'a list" where
  "filterBoolean xs = concat (map (\<lambda>x. case x of None \<Rightarrow> [] | Some v \<Rightarrow> [v]) xs)"

text \<open>
  \<^verbatim>\<open>distinctUntilChanged(compare)\<close>: the operator keeps the last value it passed on
  (its key). The first value passes; a later value is compared with the key by
  \<^verbatim>\<open>compare(key, value)\<close> and is skipped when the comparator answers true, otherwise
  it becomes the key and passes.
\<close>

definition duc_next :: "('a \<Rightarrow> 'a \<Rightarrow> bool) \<Rightarrow> 'a option \<Rightarrow> 'a \<Rightarrow> 'a option \<times> 'a option" where
  "duc_next compare key x =
     (case key of
        None \<Rightarrow> (Some x, Some x)
      | Some k \<Rightarrow> if compare k x then (key, None) else (Some x, Some x))"

definition passed :: "'a option \<Rightarrow> 'a list" where
  "passed out = (case out of None \<Rightarrow> [] | Some x \<Rightarrow> [x])"

fun distinctUntilChanged :: "('a \<Rightarrow> 'a \<Rightarrow> bool) \<Rightarrow> 'a option \<Rightarrow> 'a list \<Rightarrow> 'a list" where
  "distinctUntilChanged compare key [] = []"
| "distinctUntilChanged compare key (x # xs) =
     (case duc_next compare key x of
        (key', out) \<Rightarrow> passed out @ distinctUntilChanged compare key' xs)"

text \<open>
  The deduplicated stream of one account in \<^verbatim>\<open>balances\<close>:
  \<^verbatim>\<open>acc.balance.filter(Boolean).distinctUntilChanged(isBalanceChanged)\<close>.
\<close>

definition deduplicated :: "AccountBalanceFormatted option list \<Rightarrow> AccountBalanceFormatted list" where
  "deduplicated bs = distinctUntilChanged isBalanceChanged None (filterBoolean bs)"

subsection \<open>The balance stream of an account handle\<close>

text \<open>
  \<^verbatim>\<open>balance(blockchain)\<close>: every block number switches to a fresh batch of three
  queries (zip, take 1); the batch of an earlier emission is unsubscribed by
  \<^verbatim>\<open>switchMap\<close>, so only the latest batch can deliver. A batch is known by its
  number in the order of the emissions of the block-number feed (the feed may
  repeat a block number). A query of the latest batch that is rejected ends the
  stream with an error. The stream starts with \<^verbatim>\<open>undefined\<close>.
\<close>

datatype balance_input =
    NewBlock int
  | QueriesResolved nat int int int
  | QueryRejected nat

record balance_state =
  started :: nat
  latest :: "(nat \<times> int) option"
  failed :: bool

definition balance_init :: balance_state where
  "balance_init = \<lparr> started = 0, latest = None, failed = False \<rparr>"

definition formatBalance :: "int \<Rightarrow> int \<Rightarrow> int \<Rightarrow> int \<Rightarrow> AccountBalanceFormatted" where
  "formatBalance bn g h w =
     \<lparr> blockNumber = bn, wei = w, gotToken = g, hsToken = h,
       eth = weiToEthString w, got = bn_toString g, hs = bn_toString h,
       delta = Map.empty \<rparr>"

definition balance_next :: "balance_state \<Rightarrow> balance_input \<Rightarrow>
    balance_state \<times> AccountBalanceFormatted option list" where
  "balance_next st i =
     (if failed st then (st, [])
      else (case i of
              NewBlock bn \<Rightarrow>
                (st\<lparr> started := started st + 1, latest := Some (started st, bn) \<rparr>, [])
            | QueriesResolved k g h w \<Rightarrow>
                (case latest st of
                   None \<Rightarrow> (st, [])
                 | Some (n, bn) \<Rightarrow>
                     if n = k then (st\<lparr> latest := None \<rparr>, [Some (formatBalance bn g h w)])
                     else (st, []))
            | QueryRejected k \<Rightarrow>
                (case latest st of
                   None \<Rightarrow> (st, [])
                 | Some (n, bn) \<Rightarrow>
                     if n = k then (st\<lparr> latest := None, failed := True \<rparr>, []) else (st, []))))"

fun balance_from :: "balance_state \<Rightarrow> balance_input list \<Rightarrow> AccountBalanceFormatted option list" where
  "balance_from st [] = []"
| "balance_from st (i # ins) =
     (case balance_next st i of (st', out) \<Rightarrow> out @ balance_from st' ins)"

definition balance :: "balance_input list \<Rightarrow> AccountBalanceFormatted option list" where
  "balance ins = None # balance_from balance_init ins"

subsection \<open>The delta view of the merged pipeline\<close>

text \<open>
  \<^verbatim>\<open>['eth', 'got', 'hs'].forEach(k => d.delta[k] && d.delta[k][0] !== '-' &&
    (d.delta[k] = '+' + d.delta[k]))\<close>: a missing key, \<^verbatim>\<open>undefined\<close> and the empty
  string are falsy.
\<close>

definition plusSign :: "dkey \<Rightarrow> Delta \<Rightarrow> Delta" where
  "plusSign k dl =
     (case dl k of
        Some (Some s) \<Rightarrow>
          (if s \<noteq> [] \<and> hd s \<noteq> CHR ''-'' then dl(k \<mapsto> Some (CHR ''+'' # s)) else dl)
      | _ \<Rightarrow> dl)"

definition deltaView :: "AccountBalanceFormatted \<Rightarrow> AccountBalanceFormatted \<Rightarrow> AccountBalanceFormatted" where
  "deltaView a b =
     (let d = b\<lparr> delta :=
            [ Eth \<mapsto> (if wei a \<noteq> wei b then Some (weiToEthString (asWei (wei b - wei a))) else None),
              Got \<mapsto> (if gotToken a \<noteq> gotToken b then Some (bn_toString (gotToken b - gotToken a)) else None),
              Hs \<mapsto> (if hsToken a \<noteq> hsToken b then Some (bn_toString (hsToken b - hsToken a)) else None) ] \<rparr>
      in d\<lparr> delta := fold plusSign [Eth, Got, Hs] (delta d) \<rparr>)"

subsection \<open>The pipeline of one account inside the merged balances\<close>

text \<open>
  Lines 301 to 321 of \<^verbatim>\<open>accounts.ts\<close>, for one subscription to an account's balance
  stream: \<^verbatim>\<open>filter(Boolean)\<close>, \<^verbatim>\<open>distinctUntilChanged(isBalanceChanged)\<close>,
  \<^verbatim>\<open>startWith(undefined)\<close>, \<^verbatim>\<open>pairwise()\<close>, \<^verbatim>\<open>switchMap\<close>,
  \<^verbatim>\<open>startWith(undefined)\<close>. The state holds the key of
  \<^verbatim>\<open>distinctUntilChanged\<close>, the previous value of \<^verbatim>\<open>pairwise\<close> (which has
  already received the \<^verbatim>\<open>undefined\<close> of the inner \<^verbatim>\<open>startWith\<close>) and the value that
  the current inner stream of \<^verbatim>\<open>switchMap\<close> still has to deliver after its delay
  of 5000 ms, if any.
\<close>

record pipe =
  key :: "AccountBalanceFormatted option"
  prev :: "AccountBalanceFormatted option"
  pending :: "AccountBalanceFormatted option option"

definition pipe_init :: pipe where
  "pipe_init = \<lparr> key = None, prev = None, pending = None \<rparr>"

datatype pipe_input =
    Emitted "AccountBalanceFormatted option"
  | Elapsed

text \<open>
  The projection of \<^verbatim>\<open>switchMap\<close> on a pair \<^verbatim>\<open>[a, b]\<close>: what is emitted at once,
  and what is left for after the delay.
\<close>

definition project :: "AccountBalanceFormatted option \<Rightarrow> AccountBalanceFormatted option \<Rightarrow>
    AccountBalanceFormatted option list \<times> AccountBalanceFormatted option option" where
  "project a b =
     (case (a, b) of
        (Some a', Some b') \<Rightarrow> ([Some (deltaView a' b')], Some b)
      | _ \<Rightarrow> ([b], None))"

fun pipe_next :: "pipe \<Rightarrow> pipe_input \<Rightarrow> pipe \<times> AccountBalanceFormatted option list" where
  "pipe_next p (Emitted None) = (p, [])"
| "pipe_next p (Emitted (Some r)) =
     (case duc_next isBalanceChanged (key p) r of
        (key', None) \<Rightarrow> (p\<lparr> key := key' \<rparr>, [])
      | (key', Some x) \<Rightarrow>
          (case project (prev p) (Some x) of
             (out, later) \<Rightarrow> (p\<lparr> key := key', prev := Some x, pending := later \<rparr>, out)))"
| "pipe_next p Elapsed =
     (case pending p of
        None \<Rightarrow> (p, [])
      | Some b \<Rightarrow> (p\<lparr> pending := None \<rparr>, [b]))"

subsection \<open>The merged balance map\<close>

text \<open>
  \<^verbatim>\<open>balances\<close>: every account handle delivered by \<^verbatim>\<open>accs.mergeMap(x => x)\<close> starts
  a pipeline whose emissions are mapped to \<^verbatim>\<open>{ [acc.owner.addressStr]: b }\<close>; the
  outer \<^verbatim>\<open>startWith(undefined)\<close> makes the first emission of a pipeline
  \<^verbatim>\<open>undefined\<close>. The inputs are the delivery of a handle, an emission of the balance
  stream seen by pipeline number \<open>i\<close>, and the end of the delay of pipeline \<open>i\<close>.
  The object under a key is \<open>Some None\<close> for \<^verbatim>\<open>undefined\<close>; \<open>None\<close> is a missing key.
\<close>

datatype balances_input =
    Account string
  | Balance nat "AccountBalanceFormatted option"
  | Delay nat


fun balances_next :: "(string \<times> pipe) list \<Rightarrow> balances_input \<Rightarrow>
    (string \<times> pipe) list \<times> (string \<times> AccountBalanceFormatted option) list" where
  "balances_next ps (Account a) = (ps @ [(a, pipe_init)], [(a, None)])"
| "balances_next ps (Balance i v) =
     (if i < length ps then
        (case pipe_next (snd (ps ! i)) (Emitted v) of
           (p', out) \<Rightarrow> (ps[i := (fst (ps ! i), p')], map (Pair (fst (ps ! i))) out))
      else (ps, []))"
| "balances_next ps (Delay i) =
     (if i < length ps then
        (case pipe_next (snd (ps ! i)) Elapsed of
           (p', out) \<Rightarrow> (ps[i := (fst (ps ! i), p')], map (Pair (fst (ps ! i))) out))
      else (ps, []))"












section \<open>The message delivery proxy\<close>

text \<open>
  \<^verbatim>\<open>createP2PProxy(p2p)\<close>. The state is the mode, the value of the
  \<^verbatim>\<open>messages\<close> subject (the pending queue) and the calls the proxy has made to the
  transport's \<^verbatim>\<open>p2p.send\<close>, in order. \<open>hex\<close> stands for \<^verbatim>\<open>t.toString('hex')\<close> and
  \<open>serialize\<close> for \<^verbatim>\<open>message.serialize\<close>; \<^verbatim>\<open>p2p.send\<close> returns a promise and
  does not throw.
\<close>

datatype P2PMode = Normal | Manual

record ('a, 'm, 'w) proxy =
  mode :: P2PMode
  messages :: "('a \<times> 'm) list"
  sent :: "(string \<times> 'w) list"

datatype send_result = TransportPromise | ResolvedFalse

definition createP2PProxy :: "('a, 'm, 'w) proxy" where
  "createP2PProxy = \<lparr> mode = Normal, messages = [], sent = [] \<rparr>"

definition flush :: "('a \<Rightarrow> string) \<Rightarrow> ('m \<Rightarrow> 'w) \<Rightarrow> ('a, 'm, 'w) proxy \<Rightarrow> ('a, 'm, 'w) proxy" where
  "flush hex serialize s =
     s\<lparr> sent := sent s @ map (\<lambda>(t, m). (hex t, serialize m)) (messages s), messages := [] \<rparr>"

definition setMode :: "('a \<Rightarrow> string) \<Rightarrow> ('m \<Rightarrow> 'w) \<Rightarrow> P2PMode \<Rightarrow> ('a, 'm, 'w) proxy \<Rightarrow> ('a, 'm, 'w) proxy" where
  "setMode hex serialize m s = (flush hex serialize s)\<lparr> mode := m \<rparr>"

definition send :: "('a \<Rightarrow> string) \<Rightarrow> ('m \<Rightarrow> 'w) \<Rightarrow> 'a \<Rightarrow> 'm \<Rightarrow> ('a, 'm, 'w) proxy \<Rightarrow>
    ('a, 'm, 'w) proxy \<times> send_result" where
  "send hex serialize to msg s =
     (if mode s = Normal then (s\<lparr> sent := sent s @ [(hex to, serialize msg)] \<rparr>, TransportPromise)
      else (s\<lparr> messages := messages s @ [(to, msg)] \<rparr>, ResolvedFalse))"

section \<open>The wiring of one account\<close>

text \<open>
  \<^verbatim>\<open>initAccount\<close>, lines 162 to 206: the merged event log and the listeners that drive
  the engine. An event of the log carries the time, the block height known to the
  monitor (absent on a block-number event), its source and the raw payload.
\<close>

datatype EventSource = Blockchain | P2P | BlockNumber

datatype ('e, 'r) payload = ChainEvent 'e | PeerMessage 'r | Number int

record ('e, 'r) Event =
  at :: nat
  block :: "int option"
  source :: EventSource
  event :: "('e, 'r) payload"

text \<open>
  \<^verbatim>\<open>bn.toNumber()\<close> fails on a number of more than 53 bits, and
  \<^verbatim>\<open>blockchain.monitoring.blockNumber()!.toNumber()\<close> fails when the monitor knows no
  block number yet (the non-null assertion is erased by the compiler): \<open>None\<close> is the
  exception thrown inside the callback of \<^verbatim>\<open>map\<close>.
\<close>

definition toNumber :: "int \<Rightarrow> int option" where
  "toNumber n = (if \<bar>n\<bar> < 2 ^ 53 then Some n else None)"

definition monitoringBlock :: "int option \<Rightarrow> int option" where
  "monitoringBlock known = (case known of None \<Rightarrow> None | Some n \<Rightarrow> toNumber n)"

text \<open>
  The inputs of the wiring: the monitor emits an on-chain event, the transport emits
  \<^verbatim>\<open>message-received\<close> (both with what \<^verbatim>\<open>blockNumber()\<close> returns at that moment and
  with \<^verbatim>\<open>Date.now()\<close>), the block-number feed emits, the transport emits
  \<^verbatim>\<open>callback-error\<close> for a reason of its own, or a consumer subscribes to \<^verbatim>\<open>events\<close>
  of the handle, with or without an error handler.
\<close>

datatype ('e, 'r) account_input =
    OnChain 'e "int option" nat
  | MessageReceived 'r "int option" nat
  | NewBlockNumber int nat
  | CallbackError string
  | Subscribe bool

text \<open>The three callbacks of \<^verbatim>\<open>map\<close> under \<^verbatim>\<open>Observable.merge\<close>.\<close>

definition wrapped :: "('e, 'r) account_input \<Rightarrow> ('e, 'r) Event option" where
  "wrapped i =
     (case i of
        OnChain e known now \<Rightarrow>
          (case monitoringBlock known of
             None \<Rightarrow> None
           | Some b \<Rightarrow> Some \<lparr> at = now, block = Some b, source = Blockchain, event = ChainEvent e \<rparr>)
      | MessageReceived r known now \<Rightarrow>
          (case monitoringBlock known of
             None \<Rightarrow> None
           | Some b \<Rightarrow> Some \<lparr> at = now, block = Some b, source = P2P, event = PeerMessage r \<rparr>)
      | NewBlockNumber bn now \<Rightarrow>
          (case toNumber bn of
             None \<Rightarrow> None
           | Some n \<Rightarrow> Some \<lparr> at = now, block = None, source = BlockNumber, event = Number n \<rparr>)
      | _ \<Rightarrow> None)"

datatype ('e, 'm) engine_call = OnBlock int | OnBlockchainEvent 'e | OnMessage 'm

datatype thrown_error = MapCallbackError | DeserializeError | TransportError string

datatype 'm console_line = P2PLog 'm | EmitErrorWarn thrown_error

datatype listener = LogBranch | EngineDriver | ConsoleLogger

text \<open>
  How the emitter of a source treats an exception thrown by one of its listeners is
  decided by the framework, not by this module. Either the exception ends the
  dispatch and propagates to the emitter's caller; or it is caught, the later
  listeners still run, and the transport reports it to its \<^verbatim>\<open>callback-error\<close>
  listeners.
\<close>

datatype dispatch = Aborting | Isolating

text \<open>A consumer of \<^verbatim>\<open>events\<close>: whether it is attached to the current replay subject,
  whether it has an error handler, and the arrays it has received.\<close>

record ('e, 'r) consumer =
  attached :: bool
  handlesError :: bool
  received :: "('e, 'r) Event list list"

text \<open>
  The state: the accumulator of \<^verbatim>\<open>scan\<close>; the buffer of \<^verbatim>\<open>shareReplay(1)\<close>; whether
  the merged stream has ended with an error and has not been subscribed again;
  whether the subscription \<^verbatim>\<open>sub\<close> of line 189 is alive; the consumers of
  \<^verbatim>\<open>events\<close>, in order of subscription; the listeners registered on each raw
  source, in order of registration; the calls made on the engine; the console; and
  the number of exceptions that have propagated to the caller of an emitter.
\<close>

record ('e, 'r, 'm) wiring =
  history :: "('e, 'r) Event list"
  replay :: "('e, 'r) Event list option"
  terminated :: bool
  internal :: bool
  consumers :: "('e, 'r) consumer list"
  listeners :: "EventSource \<Rightarrow> listener list"
  engine :: "('e, 'm) engine_call list"
  console :: "'m console_line list"
  thrown :: nat

text \<open>
  Registration order in \<^verbatim>\<open>initAccount\<close>: \<^verbatim>\<open>events.subscribe()\<close> (line 189)
  subscribes the merged log to the three sources; then come the subscription that
  calls \<^verbatim>\<open>engine.onBlock\<close> (191), \<^verbatim>\<open>engine.onBlockchainEvent\<close> (196),
  the listener that calls \<^verbatim>\<open>engine.onMessage\<close> (197) and the one that prints (199).
\<close>

definition registered :: "EventSource \<Rightarrow> listener list" where
  "registered s =
     (case s of
        Blockchain \<Rightarrow> [LogBranch, EngineDriver]
      | P2P \<Rightarrow> [LogBranch, EngineDriver, ConsoleLogger]
      | BlockNumber \<Rightarrow> [LogBranch, EngineDriver])"

definition initAccount :: "('e, 'r, 'm) wiring" where
  "initAccount =
     \<lparr> history = [], replay = None, terminated = False, internal = True, consumers = [],
       listeners = registered, engine = [], console = [], thrown = 0 \<rparr>"

text \<open>
  \<^verbatim>\<open>collectEvents\<close>: \<^verbatim>\<open>scan((a, e) => a.concat([e]), [])\<close> then \<^verbatim>\<open>shareReplay(1)\<close>:
  the new array is buffered and handed to every consumer of the current subject.
\<close>

definition collectEvents :: "('e, 'r) Event \<Rightarrow> ('e, 'r, 'm) wiring \<Rightarrow> ('e, 'r, 'm) wiring" where
  "collectEvents e w =
     (let a = history w @ [e]
      in w\<lparr> history := a, replay := Some a,
            consumers := map (\<lambda>c. if attached c then c\<lparr> received := received c @ [a] \<rparr> else c)
              (consumers w) \<rparr>)"

text \<open>
  An exception in a \<^verbatim>\<open>map\<close> callback ends the merged stream with an error. The
  subscription to the sources is torn down, which removes the log's listeners
  from the three sources; the consumers of the subject get no more arrays. The
  subscription \<^verbatim>\<open>sub\<close> of line 189 has no error handler: when it is alive it is
  unsubscribed, and with it the subscription that calls \<^verbatim>\<open>engine.onBlock\<close>, which
  line 191 added to it, and it throws the error again. So does a consumer without
  an error handler.
\<close>

definition endWithError :: "('e, 'r, 'm) wiring \<Rightarrow> ('e, 'r, 'm) wiring" where
  "endWithError w =
     w\<lparr> terminated := True, internal := False,
        consumers := map (\<lambda>c. c\<lparr> attached := False \<rparr>) (consumers w),
        listeners := (\<lambda>s. filter
          (\<lambda>l. l \<noteq> LogBranch \<and> \<not> (internal w \<and> s = BlockNumber \<and> l = EngineDriver))
          (listeners w s)) \<rparr>"

definition rethrown :: "('e, 'r, 'm) wiring \<Rightarrow> bool" where
  "rethrown w = (internal w \<or> list_ex (\<lambda>c. attached c \<and> \<not> handlesError c) (consumers w))"

text \<open>One listener on one input, with the exception it throws, if any.\<close>

definition logBranch :: "('e, 'r) account_input \<Rightarrow> ('e, 'r, 'm) wiring \<Rightarrow>
    ('e, 'r, 'm) wiring \<times> thrown_error option" where
  "logBranch i w =
     (case wrapped i of
        None \<Rightarrow> (endWithError w, if rethrown w then Some MapCallbackError else None)
      | Some e \<Rightarrow> (collectEvents e w, None))"

definition engineDriver :: "('r \<Rightarrow> 'm option) \<Rightarrow> ('e, 'r) account_input \<Rightarrow> ('e, 'r, 'm) wiring \<Rightarrow>
    ('e, 'r, 'm) wiring \<times> thrown_error option" where
  "engineDriver deserializeAndDecode i w =
     (case i of
        OnChain e known now \<Rightarrow> (w\<lparr> engine := engine w @ [OnBlockchainEvent e] \<rparr>, None)
      | MessageReceived r known now \<Rightarrow>
          (case deserializeAndDecode r of
             None \<Rightarrow> (w, Some DeserializeError)
           | Some m \<Rightarrow> (w\<lparr> engine := engine w @ [OnMessage m] \<rparr>, None))
      | NewBlockNumber bn now \<Rightarrow> (w\<lparr> engine := engine w @ [OnBlock bn] \<rparr>, None)
      | _ \<Rightarrow> (w, None))"

definition consoleLogger :: "('r \<Rightarrow> 'm option) \<Rightarrow> ('e, 'r) account_input \<Rightarrow> ('e, 'r, 'm) wiring \<Rightarrow>
    ('e, 'r, 'm) wiring \<times> thrown_error option" where
  "consoleLogger deserializeAndDecode i w =
     (case i of
        MessageReceived r known now \<Rightarrow>
          (case deserializeAndDecode r of
             None \<Rightarrow> (w, Some DeserializeError)
           | Some m \<Rightarrow> (w\<lparr> console := console w @ [P2PLog m] \<rparr>, None))
      | _ \<Rightarrow> (w, None))"

definition call :: "('r \<Rightarrow> 'm option) \<Rightarrow> listener \<Rightarrow> ('e, 'r) account_input \<Rightarrow> ('e, 'r, 'm) wiring \<Rightarrow>
    ('e, 'r, 'm) wiring \<times> thrown_error option" where
  "call decode l i w =
     (case l of
        LogBranch \<Rightarrow> logBranch i w
      | EngineDriver \<Rightarrow> engineDriver decode i w
      | ConsoleLogger \<Rightarrow> consoleLogger decode i w)"

text \<open>
  The handler of line 204 prints a warning for an exception that the transport
  reports; the other two sources have no such listener in this module.
\<close>

definition reported :: "EventSource \<Rightarrow> thrown_error \<Rightarrow> ('e, 'r, 'm) wiring \<Rightarrow> ('e, 'r, 'm) wiring" where
  "reported s err w = (if s = P2P then w\<lparr> console := console w @ [EmitErrorWarn err] \<rparr> else w)"

text \<open>
  The dispatch of one input to the listeners of its source, in order. A listener
  that has been removed in the course of the dispatch is not called.
\<close>

fun emit :: "dispatch \<Rightarrow> ('r \<Rightarrow> 'm option) \<Rightarrow> EventSource \<Rightarrow> listener list \<Rightarrow>
    ('e, 'r) account_input \<Rightarrow> ('e, 'r, 'm) wiring \<Rightarrow> ('e, 'r, 'm) wiring" where
  "emit d decode s [] i w = w"
| "emit d decode s (l # ls) i w =
     (if l \<notin> set (listeners w s) then emit d decode s ls i w
      else (case call decode l i w of
              (w', None) \<Rightarrow> emit d decode s ls i w'
            | (w', Some err) \<Rightarrow>
                (case d of
                   Aborting \<Rightarrow> w'\<lparr> thrown := thrown w' + 1 \<rparr>
                 | Isolating \<Rightarrow> emit d decode s ls i (reported s err w'))))"

text \<open>
  A consumer that subscribes gets the buffered array at once, if there is one.
  When the merged stream has ended with an error, \<^verbatim>\<open>shareReplay\<close> makes a new
  subject and subscribes to the sources again: the log restarts from an empty
  history, with its listeners registered last on each source. The model covers
  the wiring until \<^verbatim>\<open>dispose\<close>.
\<close>

definition subscribe :: "bool \<Rightarrow> ('e, 'r, 'm) wiring \<Rightarrow> ('e, 'r, 'm) wiring" where
  "subscribe h w =
     (if terminated w then
        w\<lparr> history := [], replay := None, terminated := False,
           consumers := consumers w @ [\<lparr> attached = True, handlesError = h, received = [] \<rparr>],
           listeners := (\<lambda>s. listeners w s @ [LogBranch]) \<rparr>
      else
        w\<lparr> consumers := consumers w @
             [\<lparr> attached = True, handlesError = h,
                received = (case replay w of None \<Rightarrow> [] | Some a \<Rightarrow> [a]) \<rparr>] \<rparr>)"

definition wiring_next :: "dispatch \<Rightarrow> ('r \<Rightarrow> 'm option) \<Rightarrow> ('e, 'r, 'm) wiring \<Rightarrow>
    ('e, 'r) account_input \<Rightarrow> ('e, 'r, 'm) wiring" where
  "wiring_next d decode w i =
     (case i of
        OnChain e known now \<Rightarrow> emit d decode Blockchain (listeners w Blockchain) i w
      | MessageReceived r known now \<Rightarrow> emit d decode P2P (listeners w P2P) i w
      | NewBlockNumber bn now \<Rightarrow> emit d decode BlockNumber (listeners w BlockNumber) i w
      | CallbackError err \<Rightarrow> w\<lparr> console := console w @ [EmitErrorWarn (TransportError err)] \<rparr>
      | Subscribe h \<Rightarrow> subscribe h w)"

definition wiring_run :: "dispatch \<Rightarrow> ('r \<Rightarrow> 'm option) \<Rightarrow> ('e, 'r, 'm) wiring \<Rightarrow>
    ('e, 'r) account_input list \<Rightarrow> ('e, 'r, 'm) wiring" where
  "wiring_run d decode w ins = foldl (wiring_next d decode) w ins"


text \<open>An input of one of the three raw sources.\<close>

definition underlying :: "('e, 'r) account_input \<Rightarrow> bool" where
  "underlying i = (case i of CallbackError err \<Rightarrow> False | Subscribe h \<Rightarrow> False | _ \<Rightarrow> True)"





text \<open>The part of the state that belongs to the log.\<close>

definition logpart :: "('e, 'r, 'm) wiring \<Rightarrow>
    ('e, 'r) Event list \<times> ('e, 'r) Event list option \<times> ('e, 'r) consumer list \<times> bool \<times> bool \<times>
    (EventSource \<Rightarrow> listener list)" where
  "logpart w = (history w, replay w, consumers w, terminated w, internal w, listeners w)"




section \<open>Readiness of the account handle\<close>

text \<open>
  Lines 208 to 229: \<^verbatim>\<open>Observable.zip\<close> of the transport's first \<^verbatim>\<open>connected\<close> status,
  the block number promise and the balance promise, mapped to the handle. Zip keeps
  what each source has delivered and emits when all three have a value; every
  source delivers once and completes, so zip completes after its emission. A
  rejected promise ends zip with an error.
\<close>

datatype ready_input =
    StatusChanged string
  | BlockNumberResolved int
  | BlockNumberRejected
  | BalanceResolved int
  | BalanceRejected

record ready =
  statusSeen :: "string option"
  blockNumberSeen :: "int option"
  balanceSeen :: "int option"
  handles :: nat
  stopped :: bool

definition ready_init :: ready where
  "ready_init = \<lparr> statusSeen = None, blockNumberSeen = None, balanceSeen = None,
                  handles = 0, stopped = False \<rparr>"

definition zip_emit :: "ready \<Rightarrow> ready" where
  "zip_emit r =
     (case (statusSeen r, blockNumberSeen r, balanceSeen r) of
        (Some s, Some b, Some w) \<Rightarrow>
          r\<lparr> statusSeen := None, blockNumberSeen := None, balanceSeen := None,
             handles := handles r + 1, stopped := True \<rparr>
      | _ \<Rightarrow> r)"

definition ready_next :: "ready \<Rightarrow> ready_input \<Rightarrow> ready" where
  "ready_next r i =
     (if stopped r then r
      else (case i of
              StatusChanged s \<Rightarrow>
                (if s = ''connected'' \<and> statusSeen r = None
                 then zip_emit (r\<lparr> statusSeen := Some s \<rparr>) else r)
            | BlockNumberResolved b \<Rightarrow>
                (if blockNumberSeen r = None then zip_emit (r\<lparr> blockNumberSeen := Some b \<rparr>) else r)
            | BlockNumberRejected \<Rightarrow>
                (if blockNumberSeen r = None then r\<lparr> stopped := True \<rparr> else r)
            | BalanceResolved w \<Rightarrow>
                (if balanceSeen r = None then zip_emit (r\<lparr> balanceSeen := Some w \<rparr>) else r)
            | BalanceRejected \<Rightarrow>
                (if balanceSeen r = None then r\<lparr> stopped := True \<rparr> else r)))"

definition ready_run :: "ready_input list \<Rightarrow> ready" where
  "ready_run ins = foldl ready_next ready_init ins"

text \<open>
  What the state of zip tells about the inputs so far: a value it holds has been
  delivered, a handle has been emitted only after all three deliveries, at most
  one handle is emitted, and zip has stopped after it.
\<close>

definition ready_inv :: "ready_input list \<Rightarrow> ready \<Rightarrow> bool" where
  "ready_inv ins r =
     ((statusSeen r \<noteq> None \<longrightarrow> StatusChanged ''connected'' \<in> set ins) \<and>
      (blockNumberSeen r \<noteq> None \<longrightarrow> (\<exists>b. BlockNumberResolved b \<in> set ins)) \<and>
      (balanceSeen r \<noteq> None \<longrightarrow> (\<exists>w. BalanceResolved w \<in> set ins)) \<and>
      (0 < handles r \<longrightarrow> StatusChanged ''connected'' \<in> set ins \<and>
         (\<exists>b. BlockNumberResolved b \<in> set ins) \<and> (\<exists>w. BalanceResolved w \<in> set ins)) \<and>
      handles r \<le> 1 \<and> (0 < handles r \<longrightarrow> stopped r))"

section \<open>The session manager\<close>

text \<open>
  An entry of \<^verbatim>\<open>cfg.userAccounts\<close> and the identity \<^verbatim>\<open>toAccount\<close> derives from it (the
  two byte buffers of \<^verbatim>\<open>AccountBase\<close> are decoded from the two strings and are left
  out). \<open>privateToAddress\<close> stands for
  \<^verbatim>\<open>util.privateToAddress(new Buffer(k, 'hex')).toString('hex')\<close>, which throws on
  a key that is not 32 bytes long: \<open>None\<close> is that exception.
\<close>

record UserAccount =
  privateKey :: string
  address :: string

record AccountBase =
  privateKeyStr :: string
  addressStr :: string
  addressShort :: string

definition stripHexPrefix :: "string \<Rightarrow> string" where
  "stripHexPrefix s = (if take 2 s = ''0x'' then drop 2 s else s)"

definition shortAddress :: "string \<Rightarrow> string" where
  "shortAddress a = ''0x'' @ take 16 a @ ''...''"

definition toAccount :: "(string \<Rightarrow> string option) \<Rightarrow> UserAccount \<Rightarrow> AccountBase option" where
  "toAccount privateToAddress acc =
     (let k = stripHexPrefix (privateKey acc)
      in case privateToAddress k of
           None \<Rightarrow> None
         | Some a \<Rightarrow> Some \<lparr> privateKeyStr = k, addressStr = a, addressShort = shortAddress a \<rparr>)"

text \<open>
  \<^verbatim>\<open>accounts()\<close>: the owners of the handles pushed to \<^verbatim>\<open>inited\<close>; the accounts whose
  handle the current inner stream of \<^verbatim>\<open>switchMap\<close> is waiting for; the buffer of
  \<^verbatim>\<open>toArray\<close>; every invocation of the initializer, in order; the arrays
  published; and whether the stream has ended with an error. The inputs are a new
  configuration and the handle of the \<open>i\<close>-th waiting account becoming ready.
\<close>

record session =
  inited :: "AccountBase list"
  initializing :: "AccountBase list"
  collected :: "AccountBase list"
  initCalls :: "AccountBase list"
  publishedLists :: "AccountBase list list"
  ended :: bool




definition toArray :: "session \<Rightarrow> session" where
  "toArray s =
     (if initializing s = [] then s\<lparr> publishedLists := publishedLists s @ [collected s] \<rparr> else s)"



section \<open>The deduplicated balance stream\<close>

lemma isBalanceChanged_iff:
  "isBalanceChanged a b \<longleftrightarrow> wei a = wei b \<and> gotToken a = gotToken b \<and> hsToken a = hsToken b"
  by (auto simp: isBalanceChanged_def quantity_def)

text \<open>
  One more value at the end of the source: the operator compares it with the last
  value it passed on, or with its initial key when it has passed none.
\<close>

lemma distinctUntilChanged_snoc:
  "distinctUntilChanged c k (xs @ [x]) =
     distinctUntilChanged c k xs @
       passed (snd (duc_next c
         (if distinctUntilChanged c k xs = [] then k
          else Some (last (distinctUntilChanged c k xs))) x))"
proof (induction xs arbitrary: k)
  case Nil
  show ?case by (simp add: duc_next_def passed_def split: option.splits)
next
  case (Cons y ys)
  obtain k' out where step: "duc_next c k y = (k', out)" by (cases "duc_next c k y")
  show ?case
  proof (cases out)
    case None
    with step have "k' = k" by (auto simp: duc_next_def split: option.splits if_splits)
    with None step show ?thesis by (simp add: Cons.IH passed_def)
  next
    case (Some v)
    with step have "k' = Some v" by (auto simp: duc_next_def split: option.splits if_splits)
    with Some step show ?thesis by (simp add: Cons.IH passed_def)
  qed
qed

lemma filterBoolean_snoc: "filterBoolean (bs @ [Some r]) = filterBoolean bs @ [r]"
  by (simp add: filterBoolean_def)

lemma deduplicated_snoc:
  "deduplicated (bs @ [Some r]) =
     deduplicated bs @
       (if deduplicated bs \<noteq> [] \<and> isBalanceChanged (last (deduplicated bs)) r then [] else [r])"
  by (simp add: deduplicated_def filterBoolean_snoc distinctUntilChanged_snoc duc_next_def passed_def)

text \<open>
  C1. Whatever readings the balance stream of an account has delivered, the next
  reading \<open>r\<close> is emitted by the deduplicated stream exactly when its wei, gotToken
  or hsToken differs from that of the last emitted reading; when all three are
  equal it is not emitted. The very first reading, which has no emitted reading
  before it, is emitted.
\<close>

theorem deduplicated_emits_iff_changed:
  "(deduplicated bs \<noteq> [] \<longrightarrow>
      deduplicated (bs @ [Some r]) =
        deduplicated bs @
          (if wei r \<noteq> wei (last (deduplicated bs)) \<or>
              gotToken r \<noteq> gotToken (last (deduplicated bs)) \<or>
              hsToken r \<noteq> hsToken (last (deduplicated bs))
           then [r] else []))
   \<and> (deduplicated bs = [] \<longrightarrow> deduplicated (bs @ [Some r]) = [r])"
  by (auto simp: deduplicated_snoc isBalanceChanged_iff)

theorem deduplicated_emits_iff_changed_witness:
  "deduplicated [None, Some (formatBalance 1 5 5 100), Some (formatBalance 2 5 5 100)] =
     [formatBalance 1 5 5 100]
   \<and> deduplicated ([None, Some (formatBalance 1 5 5 100), Some (formatBalance 2 5 5 100)] @
        [Some (formatBalance 3 5 3 100)]) = [formatBalance 1 5 5 100, formatBalance 3 5 3 100]
   \<and> deduplicated ([None, Some (formatBalance 1 5 5 100), Some (formatBalance 2 5 5 100)] @
        [Some (formatBalance 3 5 5 100)]) = [formatBalance 1 5 5 100]"
proof -
  let ?bs = "[None, Some (formatBalance 1 5 5 100), Some (formatBalance 2 5 5 100)]"
  have d: "deduplicated ?bs = [formatBalance 1 5 5 100]"
    by (simp add: deduplicated_def filterBoolean_def duc_next_def passed_def isBalanceChanged_iff
        formatBalance_def)
  show ?thesis
    using deduplicated_emits_iff_changed [of ?bs "formatBalance 3 5 3 100"]
      deduplicated_emits_iff_changed [of ?bs "formatBalance 3 5 5 100"]
    by (simp add: d) (simp add: formatBalance_def)
qed

section \<open>The delta view\<close>

lemma showNat_digit: "n < 10 \<Longrightarrow> showNat n = [digit n]"
  by (simp add: showNat.simps)

lemma weiToEthString_50: "weiToEthString 50 = ''0''"
  by (simp add: weiToEthString_def bn_div_def bn_toString_def showNat_digit digit_def)

lemma bn_toString_minus_2: "bn_toString (- 2) = ''-2''"
  by (simp add: bn_toString_def showNat_digit digit_def)

lemma plusSign_apply:
  "plusSign k dl k' =
     (if k' = k then
        (case dl k of
           Some (Some s) \<Rightarrow> if s \<noteq> [] \<and> hd s \<noteq> CHR ''-'' then Some (Some (CHR ''+'' # s)) else dl k
         | v \<Rightarrow> v)
      else dl k')"
  by (simp add: plusSign_def split: option.splits)

text \<open>
  The readings of the example: wei 100, gotToken 5, hsToken 5, then wei 150,
  gotToken 5, hsToken 3, at any two block numbers. The difference of 50 wei divided
  by \<open>10^18\<close> is the integer 0.
\<close>

lemma deltaView_example:
  "deltaView (formatBalance m 5 5 100) (formatBalance n 5 3 150) =
     (formatBalance n 5 3 150)\<lparr> delta := [Eth \<mapsto> Some ''+0'', Got \<mapsto> None, Hs \<mapsto> Some ''-2''] \<rparr>"
proof -
  have "delta (deltaView (formatBalance m 5 5 100) (formatBalance n 5 3 150)) k =
      [Eth \<mapsto> Some ''+0'', Got \<mapsto> None, Hs \<mapsto> Some ''-2''] k" for k
    by (cases k)
       (simp_all add: deltaView_def formatBalance_def plusSign_apply asWei_def
          weiToEthString_50 bn_toString_minus_2)
  then have "delta (deltaView (formatBalance m 5 5 100) (formatBalance n 5 3 150)) =
      [Eth \<mapsto> Some ''+0'', Got \<mapsto> None, Hs \<mapsto> Some ''-2'']"
    by (rule ext)
  then show ?thesis
    by (simp add: deltaView_def formatBalance_def)
qed

lemma pipeline_example:
  "snd (pipe_next (fst (pipe_next pipe_init (Emitted (Some (formatBalance m 5 5 100)))))
         (Emitted (Some (formatBalance n 5 3 150)))) =
     [Some (deltaView (formatBalance m 5 5 100) (formatBalance n 5 3 150))]"
  by (simp add: pipe_init_def duc_next_def project_def isBalanceChanged_iff)
     (simp add: formatBalance_def)

text \<open>
  C2, as the code has it. A fresh pipeline of the merged balances that receives the
  reading (wei 100, gotToken 5, hsToken 5) and then (wei 150, gotToken 5,
  hsToken 3) emits for the second one the reading with the delta record
  \<^verbatim>\<open>{eth: "+0", got: undefined, hs: "-2"}\<close>: the wei difference is divided by
  \<open>10^18\<close> as an integer, so it is 0 and gets a plus sign; the unchanged token has
  no delta; the decreasing token keeps its minus sign and gets no plus sign.
\<close>

theorem delta_of_example_readings:
  "snd (pipe_next (fst (pipe_next pipe_init (Emitted (Some (formatBalance m 5 5 100)))))
         (Emitted (Some (formatBalance n 5 3 150)))) =
     [Some ((formatBalance n 5 3 150)\<lparr> delta :=
        [Eth \<mapsto> Some ''+0'', Got \<mapsto> None, Hs \<mapsto> Some ''-2''] \<rparr>)]"
  by (simp only: pipeline_example deltaView_example)

text \<open>
  C2, as the specification states it, fails: the delta record of the example is not
  \<^verbatim>\<open>{eth: "+0.00000000000000005", got: undefined, hs: "-2"}\<close>.
\<close>

theorem delta_of_example_readings_counterexample:
  "snd (pipe_next (fst (pipe_next pipe_init (Emitted (Some (formatBalance 1 5 5 100)))))
         (Emitted (Some (formatBalance 2 5 3 150)))) \<noteq>
     [Some ((formatBalance 2 5 3 150)\<lparr> delta :=
        [Eth \<mapsto> Some ''+0.00000000000000005'', Got \<mapsto> None, Hs \<mapsto> Some ''-2''] \<rparr>)]"
proof
  assume "snd (pipe_next (fst (pipe_next pipe_init (Emitted (Some (formatBalance 1 5 5 100)))))
         (Emitted (Some (formatBalance 2 5 3 150)))) =
     [Some ((formatBalance 2 5 3 150)\<lparr> delta :=
        [Eth \<mapsto> Some ''+0.00000000000000005'', Got \<mapsto> None, Hs \<mapsto> Some ''-2''] \<rparr>)]"
  then have "delta ((formatBalance 2 5 3 150)\<lparr> delta :=
        [Eth \<mapsto> Some ''+0'', Got \<mapsto> None, Hs \<mapsto> Some ''-2''] \<rparr>) Eth =
      delta ((formatBalance 2 5 3 150)\<lparr> delta :=
        [Eth \<mapsto> Some ''+0.00000000000000005'', Got \<mapsto> None, Hs \<mapsto> Some ''-2''] \<rparr>) Eth"
    by (simp only: pipeline_example deltaView_example list.inject option.inject)
  then show False by simp
qed

section \<open>The balance stream of the handle\<close>

lemma balance_next_delta:
  "balance_next st i = (st', out) \<Longrightarrow> Some r \<in> set out \<Longrightarrow> delta r = Map.empty"
  by (cases i) (auto simp: balance_next_def formatBalance_def split: if_splits option.splits prod.splits)

lemma balance_from_delta:
  "Some r \<in> set (balance_from st ins) \<Longrightarrow> delta r = Map.empty"
proof (induction ins arbitrary: st)
  case Nil
  then show ?case by simp
next
  case (Cons i ins)
  obtain st' out where n: "balance_next st i = (st', out)" by (cases "balance_next st i")
  with Cons.prems have "Some r \<in> set out \<or> Some r \<in> set (balance_from st' ins)" by simp
  then show ?case
  proof
    assume "Some r \<in> set out"
    with n show ?thesis by (rule balance_next_delta)
  next
    assume "Some r \<in> set (balance_from st' ins)"
    then show ?thesis by (rule Cons.IH)
  qed
qed

text \<open>
  A batch of queries is told from the others by the emission of the block-number
  feed that started it: when the feed repeats a block number, the batch of the
  earlier emission is unsubscribed and only the later one delivers.
\<close>

lemma repeated_block_number:
  "balance [NewBlock 7, NewBlock 7, QueriesResolved 0 1 1 1, QueriesResolved 1 5 5 100] =
     [None, Some (formatBalance 7 5 5 100)]"
  by (simp add: balance_def balance_next_def balance_init_def)

lemma deltaView_keys: "delta (deltaView a b) k \<noteq> None"
  by (cases k) (simp_all add: deltaView_def plusSign_apply Let_def split: option.splits)

text \<open>
  C10. Every reading that the balance stream of an account handle emits has the
  empty delta record, whatever blocks and query results arrive. A delta view built
  by the merged balances pipeline has all three keys (\<open>UNIV\<close> is the set of the
  keys eth, got and hs).
\<close>

theorem handle_balance_has_empty_delta:
  "(Some r \<in> set (balance ins) \<longrightarrow> delta r = Map.empty)
   \<and> dom (delta (deltaView a b)) = UNIV"
  using deltaView_keys [of a b]
  by (auto simp: balance_def dest: balance_from_delta)

theorem handle_balance_has_empty_delta_witness:
  "Some (formatBalance 7 5 5 100) \<in> set (balance [NewBlock 7, QueriesResolved 0 5 5 100])
   \<and> delta (formatBalance 7 5 5 100) = Map.empty"
proof -
  have m: "Some (formatBalance 7 5 5 100) \<in> set (balance [NewBlock 7, QueriesResolved 0 5 5 100])"
    by (simp add: balance_def balance_next_def balance_init_def)
  with handle_balance_has_empty_delta [of "formatBalance 7 5 5 100"
      "[NewBlock 7, QueriesResolved 0 5 5 100]"]
  show ?thesis by blast
qed

section \<open>Flushing the proxy\<close>

text \<open>
  C3. From any state of the proxy, \<^verbatim>\<open>setMode('manual')\<close>, three calls of
  \<^verbatim>\<open>send\<close> and \<^verbatim>\<open>flush()\<close>: the three sends reach no transport call and queue the
  three pairs in order; the flush calls the transport's send exactly three times,
  in the order of the send calls, with the address in hex and the serialized
  message of each pair; the queue is empty afterwards. On a new proxy these three
  are the only transport calls.
\<close>

theorem manual_sends_are_flushed_in_order:
  "(let s1 = setMode hex serialize Manual s;
        s2 = fst (send hex serialize t1 m1 s1);
        s3 = fst (send hex serialize t2 m2 s2);
        s4 = fst (send hex serialize t3 m3 s3);
        s5 = flush hex serialize s4
    in sent s4 = sent s1
     \<and> messages s4 = [(t1, m1), (t2, m2), (t3, m3)]
     \<and> sent s5 = sent s1 @ [(hex t1, serialize m1), (hex t2, serialize m2), (hex t3, serialize m3)]
     \<and> messages s5 = [])
   \<and> (let s1 = setMode hex serialize Manual createP2PProxy;
        s2 = fst (send hex serialize t1 m1 s1);
        s3 = fst (send hex serialize t2 m2 s2);
        s4 = fst (send hex serialize t3 m3 s3);
        s5 = flush hex serialize s4
    in sent s5 = [(hex t1, serialize m1), (hex t2, serialize m2), (hex t3, serialize m3)]
     \<and> messages s5 = [])"
  by (simp add: Let_def setMode_def send_def flush_def createP2PProxy_def)

section \<open>The merged balance map\<close>







text \<open>What one input does to the pipelines and what it emits.\<close>

lemma balances_next_Account:
  "balances_next ps (Account a) = (ps @ [(a, pipe_init)], [(a, None)])"
  by simp


































section \<open>The merged event log\<close>

lemma collectEvents_fields [simp]:
  "history (collectEvents e w) = history w @ [e]"
  "replay (collectEvents e w) = Some (history w @ [e])"
  "terminated (collectEvents e w) = terminated w"
  "internal (collectEvents e w) = internal w"
  "listeners (collectEvents e w) = listeners w"
  "engine (collectEvents e w) = engine w"
  "console (collectEvents e w) = console w"
  "thrown (collectEvents e w) = thrown w"
  "length (consumers (collectEvents e w)) = length (consumers w)"
  by (simp_all add: collectEvents_def Let_def)

lemma collectEvents_attached [simp]:
  "list_all attached (consumers (collectEvents e w)) = list_all attached (consumers w)"
  by (induction "consumers w") (auto simp: collectEvents_def Let_def list_all_iff)

lemma registered_simps [simp]:
  "registered Blockchain = [LogBranch, EngineDriver]"
  "registered P2P = [LogBranch, EngineDriver, ConsoleLogger]"
  "registered BlockNumber = [LogBranch, EngineDriver]"
  by (simp_all add: registered_def)






lemma logpart_listeners: "logpart v = logpart w \<Longrightarrow> listeners v = listeners w"
  by (simp add: logpart_def)















lemma wrapped_other: "\<not> underlying i \<Longrightarrow> wrapped i = None"
  by (cases i) (simp_all add: underlying_def wrapped_def)








section \<open>The engine callbacks\<close>












section \<open>A peer message that does not deserialize\<close>





section \<open>An event that arrives before the monitor knows a block number\<close>

text \<open>
  C4 fails in the code. A peer message arrives while \<^verbatim>\<open>blockNumber()\<close> is
  \<^verbatim>\<open>undefined\<close>: the callback of \<^verbatim>\<open>map\<close> throws, the merged stream ends with an
  error, and the subscription of line 189, which has no error handler, is torn
  down. The block number and the peer message that follow are not logged, under
  either way of dispatching. A consumer that subscribes after them starts a new
  log: it receives the next event alone, and none of the three earlier ones. A
  consumer that was attached when the message arrived is detached and receives
  nothing, neither then nor for the block number that follows.
\<close>

theorem log_ends_when_block_number_is_unknown:
  "history (wiring_run Aborting Some (initAccount :: (string, string, string) wiring)
      [MessageReceived ''m1'' None 0, NewBlockNumber 1 1, MessageReceived ''m2'' (Some 1) 2]) = []
   \<and> history (wiring_run Isolating Some (initAccount :: (string, string, string) wiring)
      [MessageReceived ''m1'' None 0, NewBlockNumber 1 1, MessageReceived ''m2'' (Some 1) 2]) = []
   \<and> map received (consumers (wiring_run Aborting Some (initAccount :: (string, string, string) wiring)
      [MessageReceived ''m1'' None 0, NewBlockNumber 1 1, MessageReceived ''m2'' (Some 1) 2,
       Subscribe True, NewBlockNumber 2 3])) =
     [[[\<lparr> at = 3, block = None, source = BlockNumber, event = Number 2 \<rparr>]]]
   \<and> map received (consumers (wiring_run Isolating Some (initAccount :: (string, string, string) wiring)
      [MessageReceived ''m1'' None 0, NewBlockNumber 1 1, MessageReceived ''m2'' (Some 1) 2,
       Subscribe True, NewBlockNumber 2 3])) =
     [[[\<lparr> at = 3, block = None, source = BlockNumber, event = Number 2 \<rparr>]]]
   \<and> consumers (wiring_run Aborting Some (initAccount :: (string, string, string) wiring)
      [Subscribe True, MessageReceived ''m1'' None 0, NewBlockNumber 1 1]) =
     [\<lparr> attached = False, handlesError = True, received = [] \<rparr>]
   \<and> consumers (wiring_run Isolating Some (initAccount :: (string, string, string) wiring)
      [Subscribe True, MessageReceived ''m1'' None 0, NewBlockNumber 1 1]) =
     [\<lparr> attached = False, handlesError = True, received = [] \<rparr>]"
  by (simp add: wiring_run_def wiring_next_def initAccount_def registered_def call_def
      logBranch_def engineDriver_def consoleLogger_def wrapped_def monitoringBlock_def toNumber_def
      collectEvents_def endWithError_def rethrown_def reported_def subscribe_def Let_def)

section \<open>Readiness of the handle\<close>

lemma zip_emit_inv:
  assumes "ready_inv ins r" and "handles r = 0"
  shows "ready_inv ins (zip_emit r)"
  using assms
  by (auto simp: ready_inv_def zip_emit_def split: option.splits)

lemma ready_inv_mono: "ready_inv ins r \<Longrightarrow> ready_inv (ins @ [i]) r"
  by (auto simp: ready_inv_def)

lemma ready_next_inv:
  assumes "ready_inv ins r"
  shows "ready_inv (ins @ [i]) (ready_next r i)"
proof (cases "stopped r")
  case True
  with assms show ?thesis by (simp add: ready_next_def ready_inv_mono)
next
  case False
  with assms have h: "handles r = 0" by (auto simp: ready_inv_def)
  show ?thesis
  proof (cases i)
    case (StatusChanged s)
    show ?thesis
    proof (cases "s = ''connected'' \<and> statusSeen r = None")
      case True
      have "ready_inv (ins @ [i]) (r\<lparr> statusSeen := Some s \<rparr>)"
        using assms True StatusChanged by (auto simp: ready_inv_def)
      then have "ready_inv (ins @ [i]) (zip_emit (r\<lparr> statusSeen := Some s \<rparr>))"
        by (rule zip_emit_inv) (simp add: h)
      with True False StatusChanged show ?thesis by (simp add: ready_next_def)
    next
      case no: False
      with False StatusChanged assms show ?thesis
        by (auto simp: ready_next_def ready_inv_mono)
    qed
  next
    case (BlockNumberResolved b)
    show ?thesis
    proof (cases "blockNumberSeen r = None")
      case True
      have "ready_inv (ins @ [i]) (r\<lparr> blockNumberSeen := Some b \<rparr>)"
        using assms True BlockNumberResolved by (auto simp: ready_inv_def)
      then have "ready_inv (ins @ [i]) (zip_emit (r\<lparr> blockNumberSeen := Some b \<rparr>))"
        by (rule zip_emit_inv) (simp add: h)
      with True False BlockNumberResolved show ?thesis by (simp add: ready_next_def)
    next
      case no: False
      with False BlockNumberResolved assms show ?thesis
        by (auto simp: ready_next_def ready_inv_mono)
    qed
  next
    case BlockNumberRejected
    with False assms h show ?thesis
      by (auto simp: ready_next_def ready_inv_def)
  next
    case (BalanceResolved w)
    show ?thesis
    proof (cases "balanceSeen r = None")
      case True
      have "ready_inv (ins @ [i]) (r\<lparr> balanceSeen := Some w \<rparr>)"
        using assms True BalanceResolved by (auto simp: ready_inv_def)
      then have "ready_inv (ins @ [i]) (zip_emit (r\<lparr> balanceSeen := Some w \<rparr>))"
        by (rule zip_emit_inv) (simp add: h)
      with True False BalanceResolved show ?thesis by (simp add: ready_next_def)
    next
      case no: False
      with False BalanceResolved assms show ?thesis
        by (auto simp: ready_next_def ready_inv_mono)
    qed
  next
    case BalanceRejected
    with False assms h show ?thesis
      by (auto simp: ready_next_def ready_inv_def)
  qed
qed

lemma ready_run_inv: "ready_inv ins (ready_run ins)"
proof (induction ins rule: rev_induct)
  case Nil
  show ?case by (simp add: ready_run_def ready_init_def ready_inv_def)
next
  case (snoc i ins)
  have "ready_run (ins @ [i]) = ready_next (ready_run ins) i"
    by (simp add: ready_run_def)
  with ready_next_inv [OF snoc.IH, of i] show ?case by simp
qed

text \<open>
  C6. Whatever the transport and the two promises deliver, a handle has been
  emitted only if the transport has reported \<^verbatim>\<open>connected\<close>, the block number
  promise has resolved and the balance promise has resolved; as long as the
  transport has not reported \<^verbatim>\<open>connected\<close>, no handle is emitted, whatever the two
  promises do; and at most one handle is emitted.
\<close>

theorem handle_resolves_only_after_all_three:
  "(0 < handles (ready_run ins) \<longrightarrow>
      StatusChanged ''connected'' \<in> set ins \<and>
      (\<exists>b. BlockNumberResolved b \<in> set ins) \<and>
      (\<exists>w. BalanceResolved w \<in> set ins))
   \<and> (StatusChanged ''connected'' \<notin> set ins \<longrightarrow> handles (ready_run ins) = 0)
   \<and> handles (ready_run ins) \<le> 1"
  using ready_run_inv [of ins] by (auto simp: ready_inv_def)

theorem handle_resolves_only_after_all_three_witness:
  "handles (ready_run [StatusChanged ''connecting'', BalanceResolved 9,
      StatusChanged ''connected'', BlockNumberResolved 4]) = 1
   \<and> StatusChanged ''connected'' \<in> set [StatusChanged ''connecting'', BalanceResolved 9,
      StatusChanged ''connected'', BlockNumberResolved 4]
   \<and> StatusChanged ''connected'' \<notin> set [StatusChanged ''connecting'', BalanceResolved 9,
      BlockNumberResolved 4]
   \<and> handles (ready_run [StatusChanged ''connecting'', BalanceResolved 9,
      BlockNumberResolved 4]) = 0"
proof -
  have r: "handles (ready_run [StatusChanged ''connecting'', BalanceResolved 9,
      StatusChanged ''connected'', BlockNumberResolved 4]) = 1"
    by (simp add: ready_run_def ready_init_def ready_next_def zip_emit_def)
  show ?thesis
    using handle_resolves_only_after_all_three [of "[StatusChanged ''connecting'', BalanceResolved 9,
        StatusChanged ''connected'', BlockNumberResolved 4]"]
      handle_resolves_only_after_all_three [of "[StatusChanged ''connecting'', BalanceResolved 9,
        BlockNumberResolved 4]"]
    by (simp add: r)
qed


section \<open>Initializing the accounts of a configuration\<close>





lemma toArray_fields [simp]:
  "initCalls (toArray s) = initCalls s"
  "inited (toArray s) = inited s"
  "initializing (toArray s) = initializing s"
  "ended (toArray s) = ended s"
  by (simp_all add: toArray_def)





lemma toAccount_Some:
  "p2a (stripHexPrefix (privateKey x)) = Some a \<Longrightarrow>
     toAccount p2a x = Some \<lparr> privateKeyStr = stripHexPrefix (privateKey x), addressStr = a,
       addressShort = shortAddress a \<rparr>"
  by (simp add: toAccount_def Let_def)







end
